theory Spec2Isabelle
  imports Complex_Main
begin

section \<open>Python values, exceptions and results\<close>

text \<open>
  The development embeds \<^verbatim>\<open>src/src/main.py\<close>: the decision payload parser
  \<^verbatim>\<open>parse_hedge_fund_response\<close>, the graph builder \<^verbatim>\<open>create_workflow\<close>, the runner
  \<^verbatim>\<open>run_hedge_fund\<close> and the two entry points \<^verbatim>\<open>run_hedge_fund_gui\<close> and
  \<^verbatim>\<open>run_from_gui\<close>.

  Exceptions are values. Only classes derived from Python's \<^verbatim>\<open>Exception\<close> occur: these are
  the ones an \<^verbatim>\<open>except Exception\<close> clause intercepts. An exception carries its class and
  the text \<^verbatim>\<open>str(e)\<close>.
\<close>

datatype exc_class =
    KeyError | ValueError | TypeError | JSONDecodeError | IndexError | ImportError | OtherError

datatype exn = Exn exc_class string

fun str_of :: "exn \<Rightarrow> string" where
  "str_of (Exn c msg) = msg"

text \<open>
  \<^verbatim>\<open>JSONDecodeError\<close> is a subclass of \<^verbatim>\<open>ValueError\<close>; \<open>isinstance_of\<close> is the test an
  \<^verbatim>\<open>except C\<close> clause performs.
\<close>

fun isinstance_of :: "exn \<Rightarrow> exc_class \<Rightarrow> bool" where
  "isinstance_of (Exn c msg) d = (c = d \<or> (c = JSONDecodeError \<and> d = ValueError))"

text \<open>Sequencing of fallible steps: the first exception ends the block.\<close>

definition and_then :: "exn + 'a \<Rightarrow> ('a \<Rightarrow> exn + 'b) \<Rightarrow> exn + 'b" where
  "and_then m f = (case m of Inl e \<Rightarrow> Inl e | Inr x \<Rightarrow> f x)"

text \<open>
  The values a JSON document decodes to, which are also the values a message's
  \<^verbatim>\<open>content\<close> can hold. \<open>PyNone\<close> is Python's \<^verbatim>\<open>None\<close> (and JSON's \<^verbatim>\<open>null\<close>).
  A \<^verbatim>\<open>dict\<close> is an association list in insertion order.
\<close>

datatype pyval =
    PyNone
  | PyBool bool
  | PyInt int
  | PyFloat real
  | PyStr string
  | PyList "pyval list"
  | PyDict "(string \<times> pyval) list"

section \<open>The decision payload parser\<close>

text \<open>
  \<^verbatim>\<open>json.loads\<close> belongs to the standard library. Its text decoder is a parameter
  \<open>dec\<close>, a function from the text to the decoded value or the exception raised; what is
  modelled here is the type test in front of it: anything but text raises \<^verbatim>\<open>TypeError\<close>.
  (The content of a message is text or a list; byte strings, which \<^verbatim>\<open>json.loads\<close> would
  decode as well, are not among the values.)
\<close>

definition json_loads :: "(string \<Rightarrow> exn + pyval) \<Rightarrow> pyval \<Rightarrow> exn + pyval" where
  "json_loads dec response =
     (case response of
        PyStr s \<Rightarrow> dec s
      | _ \<Rightarrow> Inl (Exn TypeError ''the JSON object must be str, bytes or bytearray''))"

text \<open>The three diagnostics the parser prints, each with the text of the exception.\<close>

datatype diag =
    JSON_decoding_error string
  | Invalid_response_type string
  | Unexpected_parse_error string

text \<open>
  \<^verbatim>\<open>
  def parse_hedge_fund_response(response):
      try:
          return json.loads(response)
      except json.JSONDecodeError as e:
          print(f"JSON decoding error: ..."); return None
      except TypeError as e:
          print(f"Invalid response type ..."); return None
      except Exception as e:
          print(f"Unexpected error while parsing response: ..."); return None
  \<close>
  The result is the returned value together with the lines printed.
\<close>

definition parse_hedge_fund_response ::
  "(string \<Rightarrow> exn + pyval) \<Rightarrow> pyval \<Rightarrow> pyval \<times> diag list" where
  "parse_hedge_fund_response dec response =
     (case json_loads dec response of
        Inr v \<Rightarrow> (v, [])
      | Inl e \<Rightarrow>
          if isinstance_of e JSONDecodeError then (PyNone, [JSON_decoding_error (str_of e)])
          else if isinstance_of e TypeError then (PyNone, [Invalid_response_type (str_of e)])
          else (PyNone, [Unexpected_parse_error (str_of e)]))"

section \<open>The workflow graph\<close>

text \<open>
  The builder object of the graph library: a dictionary of nodes (names in insertion
  order, each with its callable), a set of edges between names, and the entry point.
  \<^verbatim>\<open>add_node\<close> refuses a name that is already present and the two reserved names;
  \<^verbatim>\<open>add_edge\<close> refuses an edge leaving \<^verbatim>\<open>END\<close> or entering \<^verbatim>\<open>START\<close>.
\<close>

datatype node_func =
    start
  | risk_management_agent
  | portfolio_management_agent
  | analyst_func string

record state_graph =
  nodes :: "(string \<times> node_func) list"
  edges :: "(string \<times> string) set"
  entry_point :: "string option"

definition END :: string where
  "END = ''__end__''"

definition START :: string where
  "START = ''__start__''"

definition StateGraph :: state_graph where
  "StateGraph = \<lparr>nodes = [], edges = {}, entry_point = None\<rparr>"

definition add_node :: "string \<Rightarrow> node_func \<Rightarrow> state_graph \<Rightarrow> exn + state_graph" where
  "add_node name f g =
     (if name \<in> fst ` set (nodes g) then Inl (Exn ValueError (''Node already present: '' @ name))
      else if name = END \<or> name = START then Inl (Exn ValueError (''Node is reserved: '' @ name))
      else Inr (g\<lparr>nodes := nodes g @ [(name, f)]\<rparr>))"

definition add_edge :: "string \<Rightarrow> string \<Rightarrow> state_graph \<Rightarrow> exn + state_graph" where
  "add_edge start_key end_key g =
     (if start_key = END then Inl (Exn ValueError ''END cannot be a start node'')
      else if end_key = START then Inl (Exn ValueError ''START cannot be an end node'')
      else Inr (g\<lparr>edges := insert (start_key, end_key) (edges g)\<rparr>))"

definition set_entry_point :: "string \<Rightarrow> state_graph \<Rightarrow> state_graph" where
  "set_entry_point key g = g\<lparr>entry_point := Some key\<rparr>"

text \<open>
  \<^verbatim>\<open>get_analyst_nodes()\<close> lives in \<^verbatim>\<open>src/utils/analysts.py\<close>, outside the sources at
  hand: the table is a parameter, a dictionary from analyst key to the pair of node name
  and callable, given as an association list in insertion order. A missing key raises
  \<^verbatim>\<open>KeyError\<close>, whose text is the quoted key.
\<close>

type_synonym analyst_table = "(string \<times> (string \<times> node_func)) list"

definition lookup_analyst :: "analyst_table \<Rightarrow> string \<Rightarrow> exn + (string \<times> node_func)" where
  "lookup_analyst analyst_nodes analyst_key =
     (case map_of analyst_nodes analyst_key of
        None \<Rightarrow> Inl (Exn KeyError ([CHR 0x27] @ analyst_key @ [CHR 0x27]))
      | Some entry \<Rightarrow> Inr entry)"

text \<open>
  The first loop of \<^verbatim>\<open>create_workflow\<close>:
  \<^verbatim>\<open>
  for analyst_key in selected_analysts:
      node_name, node_func = analyst_nodes[analyst_key]
      workflow.add_node(node_name, node_func)
      workflow.add_edge("start_node", node_name)
  \<close>
\<close>

fun add_analyst_nodes :: "analyst_table \<Rightarrow> string list \<Rightarrow> state_graph \<Rightarrow> exn + state_graph" where
  "add_analyst_nodes analyst_nodes [] g = Inr g"
| "add_analyst_nodes analyst_nodes (analyst_key # rest) g =
     and_then (lookup_analyst analyst_nodes analyst_key) (\<lambda>(node_name, f).
     and_then (add_node node_name f g) (\<lambda>g1.
     and_then (add_edge ''start_node'' node_name g1) (\<lambda>g2.
     add_analyst_nodes analyst_nodes rest g2)))"

text \<open>
  The second loop:
  \<^verbatim>\<open>
  for analyst_key in selected_analysts:
      node_name = analyst_nodes[analyst_key][0]
      workflow.add_edge(node_name, "risk_management_agent")
  \<close>
\<close>

fun connect_analysts :: "analyst_table \<Rightarrow> string list \<Rightarrow> state_graph \<Rightarrow> exn + state_graph" where
  "connect_analysts analyst_nodes [] g = Inr g"
| "connect_analysts analyst_nodes (analyst_key # rest) g =
     and_then (lookup_analyst analyst_nodes analyst_key) (\<lambda>(node_name, f).
     and_then (add_edge node_name ''risk_management_agent'' g) (\<lambda>g1.
     connect_analysts analyst_nodes rest g1))"

text \<open>
  \<^verbatim>\<open>create_workflow(selected_analysts=None)\<close>: \<open>None\<close> selects every key of the table.
\<close>

definition create_workflow :: "analyst_table \<Rightarrow> string list option \<Rightarrow> exn + state_graph" where
  "create_workflow analyst_nodes selected_analysts =
     and_then (add_node ''start_node'' start StateGraph) (\<lambda>g0.
     let selected = (case selected_analysts of None \<Rightarrow> map fst analyst_nodes | Some ks \<Rightarrow> ks) in
     and_then (add_analyst_nodes analyst_nodes selected g0) (\<lambda>g1.
     and_then (add_node ''risk_management_agent'' risk_management_agent g1) (\<lambda>g2.
     and_then (add_node ''portfolio_manager'' portfolio_management_agent g2) (\<lambda>g3.
     and_then (connect_analysts analyst_nodes selected g3) (\<lambda>g4.
     and_then (add_edge ''risk_management_agent'' ''portfolio_manager'' g4) (\<lambda>g5.
     and_then (add_edge ''portfolio_manager'' END g5) (\<lambda>g6.
     Inr (set_entry_point ''start_node'' g6))))))))"

section \<open>Dates\<close>

text \<open>
  \<^verbatim>\<open>datetime.strptime(s, "%Y-%m-%d")\<close>, \<^verbatim>\<open>strftime("%Y-%m-%d")\<close> and
  \<^verbatim>\<open>relativedelta(months=3)\<close> belong to the standard library and to \<^verbatim>\<open>dateutil\<close>.
  They are modelled on calendar dates. The parser follows the patterns the library compiles
  the format into: four digits for \<^verbatim>\<open>%Y\<close>; \<^verbatim>\<open>1[0-2]|0[1-9]|[1-9]\<close> for \<^verbatim>\<open>%m\<close>;
  \<^verbatim>\<open>3[0-1]|[1-2]\d|0[1-9]|[1-9]| [1-9]\<close> for \<^verbatim>\<open>%d\<close>; alternatives are tried in this
  order, text left over after the match is an error, and so is a day the month does not have.
\<close>

record date =
  year :: nat
  month :: nat
  day :: nat

definition is_leap :: "nat \<Rightarrow> bool" where
  "is_leap y = (y mod 4 = 0 \<and> (y mod 100 \<noteq> 0 \<or> y mod 400 = 0))"

definition days_in_month :: "nat \<Rightarrow> nat \<Rightarrow> nat" where
  "days_in_month y m =
     (if m = 2 then (if is_leap y then 29 else 28)
      else if m = 4 \<or> m = 6 \<or> m = 9 \<or> m = 11 then 30
      else 31)"


text \<open>The constructor of a date raises \<^verbatim>\<open>ValueError\<close> outside the calendar.\<close>

definition make_date :: "nat \<Rightarrow> nat \<Rightarrow> nat \<Rightarrow> exn + date" where
  "make_date y m d =
     (if y < 1 \<or> 9999 < y then Inl (Exn ValueError ''year is out of range'')
      else if m < 1 \<or> 12 < m then Inl (Exn ValueError ''month must be in 1..12'')
      else if d < 1 \<or> days_in_month y m < d then Inl (Exn ValueError ''day is out of range for month'')
      else Inr \<lparr>year = y, month = m, day = d\<rparr>)"

definition digit_value :: "char \<Rightarrow> nat option" where
  "digit_value =
     map_of [(CHR ''0'', 0), (CHR ''1'', 1), (CHR ''2'', 2), (CHR ''3'', 3), (CHR ''4'', 4),
             (CHR ''5'', 5), (CHR ''6'', 6), (CHR ''7'', 7), (CHR ''8'', 8), (CHR ''9'', 9)]"

text \<open>A character of a given range of digits, with its value.\<close>

definition digit_between :: "nat \<Rightarrow> nat \<Rightarrow> char \<Rightarrow> nat option" where
  "digit_between lo hi c =
     (case digit_value c of
        None \<Rightarrow> None
      | Some v \<Rightarrow> if lo \<le> v \<and> v \<le> hi then Some v else None)"

text \<open>
  Each matcher returns the ways its pattern matches a prefix of the text, in the order
  the alternatives are tried, each with the value read and the text that follows.
\<close>

definition match_year :: "string \<Rightarrow> (nat \<times> string) list" where
  "match_year s =
     (case s of
        a # b # c # d # rest \<Rightarrow>
          (case (digit_value a, digit_value b, digit_value c, digit_value d) of
             (Some va, Some vb, Some vc, Some vd) \<Rightarrow> [(1000 * va + 100 * vb + 10 * vc + vd, rest)]
           | _ \<Rightarrow> [])
      | _ \<Rightarrow> [])"

definition two_chars :: "(char \<Rightarrow> nat option) \<Rightarrow> (char \<Rightarrow> nat option) \<Rightarrow> string \<Rightarrow> (nat \<times> string) list" where
  "two_chars p q s =
     (case s of
        a # b # rest \<Rightarrow>
          (case (p a, q b) of (Some va, Some vb) \<Rightarrow> [(10 * va + vb, rest)] | _ \<Rightarrow> [])
      | _ \<Rightarrow> [])"

definition one_char :: "(char \<Rightarrow> nat option) \<Rightarrow> string \<Rightarrow> (nat \<times> string) list" where
  "one_char p s =
     (case s of
        a # rest \<Rightarrow> (case p a of Some va \<Rightarrow> [(va, rest)] | None \<Rightarrow> [])
      | _ \<Rightarrow> [])"

definition blank :: "char \<Rightarrow> nat option" where
  "blank c = (if c = CHR '' '' then Some 0 else None)"

definition match_month :: "string \<Rightarrow> (nat \<times> string) list" where
  "match_month s =
     two_chars (digit_between 1 1) (digit_between 0 2) s
     @ two_chars (digit_between 0 0) (digit_between 1 9) s
     @ one_char (digit_between 1 9) s"

definition match_day :: "string \<Rightarrow> (nat \<times> string) list" where
  "match_day s =
     two_chars (digit_between 3 3) (digit_between 0 1) s
     @ two_chars (digit_between 1 2) (digit_between 0 9) s
     @ two_chars (digit_between 0 0) (digit_between 1 9) s
     @ one_char (digit_between 1 9) s
     @ two_chars blank (digit_between 1 9) s"

definition match_dash :: "string \<Rightarrow> string list" where
  "match_dash s = (case s of c # rest \<Rightarrow> (if c = CHR ''-'' then [rest] else []) | _ \<Rightarrow> [])"

text \<open>All matches of the whole pattern, the preferred one first.\<close>

definition match_format :: "string \<Rightarrow> ((nat \<times> nat \<times> nat) \<times> string) list" where
  "match_format s =
     concat (map (\<lambda>(y, r1).
       concat (map (\<lambda>r2.
         concat (map (\<lambda>(m, r3).
           concat (map (\<lambda>r4.
             map (\<lambda>(d, r5). ((y, m, d), r5)) (match_day r4))
           (match_dash r3)))
         (match_month r2)))
       (match_dash r1)))
     (match_year s))"

definition strptime :: "string \<Rightarrow> exn + date" where
  "strptime s =
     (case match_format s of
        [] \<Rightarrow> Inl (Exn ValueError ''time data does not match format'')
      | ((y, m, d), rest) # others \<Rightarrow>
          if rest \<noteq> [] then Inl (Exn ValueError ''unconverted data remains'')
          else make_date y m d)"

definition digit_char :: "nat \<Rightarrow> char" where
  "digit_char n = ''0123456789'' ! (n mod 10)"

definition strftime :: "date \<Rightarrow> string" where
  "strftime d =
     [digit_char (year d div 1000), digit_char (year d div 100), digit_char (year d div 10),
      digit_char (year d), CHR ''-'',
      digit_char (month d div 10), digit_char (month d), CHR ''-'',
      digit_char (day d div 10), digit_char (day d)]"

text \<open>
  \<^verbatim>\<open>dt - relativedelta(months=3)\<close>: the month goes back by three, into the year before when
  it has to; the day is cut down to the length of the new month; a year before year 1
  raises \<^verbatim>\<open>ValueError\<close>.
\<close>

definition minus_three_months :: "date \<Rightarrow> exn + date" where
  "minus_three_months dt =
     (let (y, m) = (if month dt \<le> 3 then (year dt - 1, month dt + 9) else (year dt, month dt - 3));
          d = min (days_in_month y m) (day dt)
      in make_date y m d)"

section \<open>The portfolio\<close>

text \<open>
  The ledger \<^verbatim>\<open>run_hedge_fund_gui\<close> builds before it runs the pipeline. Amounts of
  money are Python floats that the code stores and never computes with; they are reals
  here. A dictionary keyed by ticker is a map.
\<close>

record position =
  long :: int
  short :: int
  long_cost_basis :: real
  short_cost_basis :: real
  short_margin_used :: real

record gains =
  long_gains :: real
  short_gains :: real

record portfolio =
  cash :: real
  margin_requirement :: real
  margin_used :: real
  positions :: "string \<rightharpoonup> position"
  realized_gains :: "string \<rightharpoonup> gains"

text \<open>A dictionary comprehension \<^verbatim>\<open>{k: v for k in ks}\<close>: one store per element, in order.\<close>

fun dict_comprehension :: "'v \<Rightarrow> 'k list \<Rightarrow> ('k \<rightharpoonup> 'v) \<Rightarrow> ('k \<rightharpoonup> 'v)" where
  "dict_comprehension v [] d = d"
| "dict_comprehension v (k # ks) d = dict_comprehension v ks (d(k \<mapsto> v))"

definition new_position :: position where
  "new_position =
     \<lparr>long = 0, short = 0, long_cost_basis = 0, short_cost_basis = 0, short_margin_used = 0\<rparr>"

definition new_gains :: gains where
  "new_gains = \<lparr>long_gains = 0, short_gains = 0\<rparr>"

definition init_portfolio :: "string list \<Rightarrow> real \<Rightarrow> real \<Rightarrow> portfolio" where
  "init_portfolio tickers initial_cash margin_req =
     \<lparr>cash = initial_cash,
      margin_requirement = margin_req,
      margin_used = 0,
      positions = dict_comprehension new_position tickers Map.empty,
      realized_gains = dict_comprehension new_gains tickers Map.empty\<rparr>"

section \<open>Running the pipeline\<close>

text \<open>
  What the compiled graph is invoked with, and what it returns: the contents of the
  messages and the analyst signals, whose type \<open>'s\<close> is left open.
\<close>

record run_input =
  in_tickers :: "string list"
  in_portfolio :: portfolio
  in_start_date :: string
  in_end_date :: string
  in_show_reasoning :: bool
  in_model_name :: string
  in_model_provider :: string

record 's final_state =
  messages :: "pyval list"
  data_analyst_signals :: 's

record 's run_result =
  decisions :: pyval
  analyst_signals :: 's

text \<open>
  The collaborators outside \<^verbatim>\<open>main.py\<close>: the analyst table and the list
  \<^verbatim>\<open>ANALYST_ORDER\<close> of display name and key (\<open>None\<close> when its import fails), the graph
  library's \<^verbatim>\<open>compile\<close> (the exception it raises, if any) and \<^verbatim>\<open>invoke\<close>, the JSON text
  decoder, the clock, and the report writer \<^verbatim>\<open>print_trading_output\<close>.
\<close>

record 's env =
  get_analyst_nodes :: analyst_table
  ANALYST_ORDER :: "(string \<times> string) list option"
  compile :: "state_graph \<Rightarrow> exn option"
  invoke :: "state_graph \<Rightarrow> run_input \<Rightarrow> exn + 's final_state"
  json_decoder :: "string \<Rightarrow> exn + pyval"
  datetime_now :: date
  print_trading_output :: "'s run_result \<Rightarrow> exn option"

text \<open>
  What a run does besides returning, in order: the progress tracker starting and stopping,
  the graph being invoked on its input (the pipeline stages run), a diagnostic of the
  parser, the fallback to the default analysts, the report being written.
\<close>

datatype event =
    Progress_start
  | Progress_stop
  | Invoked run_input
  | Printed diag
  | Fallback
  | Reported

text \<open>\<^verbatim>\<open>workflow = create_workflow(...); agent = workflow.compile()\<close>\<close>

definition create_and_compile :: "'s env \<Rightarrow> string list option \<Rightarrow> exn + state_graph" where
  "create_and_compile env selected_analysts =
     and_then (create_workflow (get_analyst_nodes env) selected_analysts) (\<lambda>workflow.
       case compile env workflow of Some e \<Rightarrow> Inl e | None \<Rightarrow> Inr workflow)"

text \<open>
  \<^verbatim>\<open>run_hedge_fund\<close>: an empty selection builds the graph of all analysts; the result
  holds the parsed content of the last message and the signals of the final state. The
  \<^verbatim>\<open>finally\<close> clause stops the progress tracker on every path.
\<close>

definition initial_state ::
  "string list \<Rightarrow> portfolio \<Rightarrow> string \<Rightarrow> string \<Rightarrow> bool \<Rightarrow> string \<Rightarrow> string \<Rightarrow> run_input" where
  "initial_state tickers pf start_date end_date show_reasoning model_name model_provider =
     \<lparr>in_tickers = tickers, in_portfolio = pf, in_start_date = start_date,
      in_end_date = end_date, in_show_reasoning = show_reasoning,
      in_model_name = model_name, in_model_provider = model_provider\<rparr>"

definition run_hedge_fund ::
  "'s env \<Rightarrow> string list \<Rightarrow> string \<Rightarrow> string \<Rightarrow> portfolio \<Rightarrow> bool \<Rightarrow> string list \<Rightarrow> string \<Rightarrow> string
     \<Rightarrow> event list \<times> (exn + 's run_result)" where
  "run_hedge_fund env tickers start_date end_date pf show_reasoning selected_analysts
       model_name model_provider =
     (case create_and_compile env
             (if selected_analysts \<noteq> [] then Some selected_analysts else None) of
        Inl e \<Rightarrow> ([Progress_start, Progress_stop], Inl e)
      | Inr agent \<Rightarrow>
          (let inp = initial_state tickers pf start_date end_date show_reasoning
                       model_name model_provider
           in case invoke env agent inp of
                Inl e \<Rightarrow> ([Progress_start, Invoked inp, Progress_stop], Inl e)
              | Inr fs \<Rightarrow>
                  if messages fs = []
                  then ([Progress_start, Invoked inp, Progress_stop],
                        Inl (Exn IndexError ''list index out of range''))
                  else (case parse_hedge_fund_response (json_decoder env) (last (messages fs)) of
                          (d, out) \<Rightarrow>
                            ([Progress_start, Invoked inp] @ map Printed out @ [Progress_stop],
                             Inr \<lparr>decisions = d, analyst_signals = data_analyst_signals fs\<rparr>))))"

section \<open>The entry point for the GUI\<close>

text \<open>
  \<^verbatim>\<open>tickers\<close> is a list, or a comma-separated text that is split and stripped of white
  space.
\<close>

datatype tickers_arg = Tickers_list "string list" | Tickers_str string

fun split_comma :: "string \<Rightarrow> string \<Rightarrow> string list" where
  "split_comma acc [] = [rev acc]"
| "split_comma acc (c # cs) =
     (if c = CHR '','' then rev acc # split_comma [] cs else split_comma (c # acc) cs)"

definition is_space :: "char \<Rightarrow> bool" where
  "is_space c = (c \<in> set [CHR '' '', CHR 0x09, CHR 0x0A, CHR 0x0B, CHR 0x0C, CHR 0x0D,
                           CHR 0x1C, CHR 0x1D, CHR 0x1E, CHR 0x1F, CHR 0x85, CHR 0xA0])"

definition strip :: "string \<Rightarrow> string" where
  "strip s = rev (dropWhile is_space (rev (dropWhile is_space s)))"

definition resolve_tickers :: "tickers_arg \<Rightarrow> string list" where
  "resolve_tickers tickers =
     (case tickers of
        Tickers_str s \<Rightarrow> map strip (split_comma [] s)
      | Tickers_list ts \<Rightarrow> ts)"

definition default_analysts :: "string list" where
  "default_analysts = [''warren_buffett'', ''peter_lynch'', ''technical_analyst'']"

text \<open>
  \<^verbatim>\<open>
  if not selected_analysts:
      try:
          from src.utils.analysts import ANALYST_ORDER
          selected_analysts = [value for display, value in ANALYST_ORDER]
      except ImportError:
          selected_analysts = ["warren_buffett", "peter_lynch", "technical_analyst"]
  \<close>
\<close>

definition resolve_analysts :: "'s env \<Rightarrow> string list option \<Rightarrow> string list" where
  "resolve_analysts env selected_analysts =
     (if selected_analysts = None \<or> selected_analysts = Some []
      then (case ANALYST_ORDER env of
              Some order \<Rightarrow> map snd order
            | None \<Rightarrow> default_analysts)
      else the selected_analysts)"

text \<open>
  The check of a date that was supplied; the inner \<^verbatim>\<open>except ValueError\<close> replaces the
  parser's error by one with the message of this program (in Chinese in the source, in
  English here).
\<close>

definition check_date :: "string \<Rightarrow> string \<Rightarrow> exn + unit" where
  "check_date s msg =
     (if s = [] then Inr ()
      else (case strptime s of
              Inl e \<Rightarrow> if isinstance_of e ValueError then Inl (Exn ValueError msg) else Inl e
            | Inr d \<Rightarrow> Inr ()))"

definition validate_dates :: "string \<Rightarrow> string \<Rightarrow> exn + unit" where
  "validate_dates start_date end_date =
     and_then (check_date start_date ''start date must be in YYYY-MM-DD format'') (\<lambda>u.
       check_date end_date ''end date must be in YYYY-MM-DD format'')"

text \<open>
  \<^verbatim>\<open>
  if not end_date:
      end_date = datetime.now().strftime("%Y-%m-%d")
  if not start_date:
      end_date_obj = datetime.strptime(end_date, "%Y-%m-%d")
      start_date = (end_date_obj - relativedelta(months=3)).strftime("%Y-%m-%d")
  \<close>
\<close>

definition resolve_dates :: "'s env \<Rightarrow> string \<Rightarrow> string \<Rightarrow> exn + (string \<times> string)" where
  "resolve_dates env start_date end_date =
     (let end_date1 = (if end_date = [] then strftime (datetime_now env) else end_date) in
      if start_date = []
      then and_then (strptime end_date1) (\<lambda>end_date_obj.
           and_then (minus_three_months end_date_obj) (\<lambda>d.
           Inr (strftime d, end_date1)))
      else Inr (start_date, end_date1))"

text \<open>
  \<^verbatim>\<open>
  try:
      workflow = create_workflow(selected_analysts)
      app = workflow.compile()
  except Exception as workflow_error:
      default_analysts = ["warren_buffett", "peter_lynch", "technical_analyst"]
      workflow = create_workflow(default_analysts)
      app = workflow.compile()
      selected_analysts = default_analysts
  \<close>
  The result is the compiled graph and the selection in force afterwards.
\<close>

definition build_with_fallback ::
  "'s env \<Rightarrow> string list \<Rightarrow> event list \<times> (exn + (state_graph \<times> string list))" where
  "build_with_fallback env selected_analysts =
     (case create_and_compile env (Some selected_analysts) of
        Inr app \<Rightarrow> ([], Inr (app, selected_analysts))
      | Inl workflow_error \<Rightarrow>
          (case create_and_compile env (Some default_analysts) of
             Inl e \<Rightarrow> ([Fallback], Inl e)
           | Inr app \<Rightarrow> ([Fallback], Inr (app, default_analysts))))"

text \<open>
  The body of the \<^verbatim>\<open>try\<close> block of \<^verbatim>\<open>run_hedge_fund_gui\<close>. Console output and the
  optional drawing of the graph, whose failure the code swallows, have no part in the
  result and are left out.
\<close>

definition run_hedge_fund_gui_body ::
  "'s env \<Rightarrow> tickers_arg \<Rightarrow> string \<Rightarrow> string \<Rightarrow> real \<Rightarrow> real \<Rightarrow> bool \<Rightarrow> string list option
     \<Rightarrow> string \<Rightarrow> string \<Rightarrow> event list \<times> (exn + 's run_result)" where
  "run_hedge_fund_gui_body env tickers start_date end_date initial_cash margin_req
       show_reasoning selected_analysts model_name model_provider =
     (let tickers1 = resolve_tickers tickers;
          selected1 = resolve_analysts env selected_analysts
      in case and_then (validate_dates start_date end_date)
                (\<lambda>u. resolve_dates env start_date end_date) of
           Inl e \<Rightarrow> ([], Inl e)
         | Inr (start_date1, end_date1) \<Rightarrow>
             (case build_with_fallback env selected1 of
                (evs1, Inl e) \<Rightarrow> (evs1, Inl e)
              | (evs1, Inr (app, selected2)) \<Rightarrow>
                  (case run_hedge_fund env tickers1 start_date1 end_date1
                          (init_portfolio tickers1 initial_cash margin_req)
                          show_reasoning selected2 model_name model_provider of
                     (evs2, Inl e) \<Rightarrow> (evs1 @ evs2, Inl e)
                   | (evs2, Inr result) \<Rightarrow>
                       (case print_trading_output env result of
                          Some e \<Rightarrow> (evs1 @ evs2 @ [Reported], Inl e)
                        | None \<Rightarrow> (evs1 @ evs2 @ [Reported], Inr result)))))"

text \<open>
  The value an entry point returns: the result of the run, or the dictionary
  \<^verbatim>\<open>{"error": str(e), "traceback": ...}\<close>, whose second entry renders the exception.
\<close>

datatype 's outcome =
    Completed "'s run_result"
  | Failed string exn

text \<open>\<^verbatim>\<open>except Exception as e: return {"error": str(e), "traceback": ...}\<close>\<close>

definition run_hedge_fund_gui ::
  "'s env \<Rightarrow> tickers_arg \<Rightarrow> string \<Rightarrow> string \<Rightarrow> real \<Rightarrow> real \<Rightarrow> bool \<Rightarrow> string list option
     \<Rightarrow> string \<Rightarrow> string \<Rightarrow> event list \<times> (exn + 's outcome)" where
  "run_hedge_fund_gui env tickers start_date end_date initial_cash margin_req
       show_reasoning selected_analysts model_name model_provider =
     (case run_hedge_fund_gui_body env tickers start_date end_date initial_cash margin_req
             show_reasoning selected_analysts model_name model_provider of
        (evs, Inr result) \<Rightarrow> (evs, Inr (Completed result))
      | (evs, Inl e) \<Rightarrow> (evs, Inr (Failed (str_of e) e)))"




text \<open>
  An environment to run the entry points in: the three default analysts and one more in
  the table, a graph library whose \<^verbatim>\<open>compile\<close> accepts every graph and whose
  \<^verbatim>\<open>invoke\<close> answers with one message of the given content and the names of the nodes as
  signals, a decoder that knows two documents, and a fixed day.
\<close>

definition sample_table :: analyst_table where
  "sample_table =
     [(''warren_buffett'', (''warren_buffett_agent'', analyst_func ''warren_buffett'')),
      (''peter_lynch'', (''peter_lynch_agent'', analyst_func ''peter_lynch'')),
      (''technical_analyst'', (''technical_analyst_agent'', analyst_func ''technical_analyst'')),
      (''sentiment'', (''sentiment_agent'', analyst_func ''sentiment''))]"

definition sample_decoder :: "string \<Rightarrow> exn + pyval" where
  "sample_decoder s =
     (if s = ''{}'' then Inr (PyDict [])
      else if s = ''[1]'' then Inr (PyList [PyInt 1])
      else Inl (Exn JSONDecodeError ''Expecting value''))"

definition sample_env :: "pyval \<Rightarrow> (string list) env" where
  "sample_env content =
     \<lparr>get_analyst_nodes = sample_table,
      ANALYST_ORDER = Some [(''Warren Buffett'', ''warren_buffett''), (''Peter Lynch'', ''peter_lynch''),
                            (''Technical Analyst'', ''technical_analyst''), (''Sentiment'', ''sentiment'')],
      compile = (\<lambda>g. None),
      invoke = (\<lambda>g inp. Inr \<lparr>messages = [content], data_analyst_signals = map fst (nodes g)\<rparr>),
      json_decoder = sample_decoder,
      datetime_now = \<lparr>year = 2024, month = 5, day = 31\<rparr>,
      print_trading_output = (\<lambda>r. None)\<rparr>"


section \<open>Evaluation\<close>

lemmas graph_defs =
  create_and_compile_def create_workflow_def and_then_def add_node_def add_edge_def
  set_entry_point_def lookup_analyst_def StateGraph_def END_def START_def

lemmas date_defs =
  strptime_def match_format_def match_year_def match_dash_def match_month_def match_day_def
  two_chars_def one_char_def digit_between_def digit_value_def blank_def make_date_def days_in_month_def
  is_leap_def strftime_def digit_char_def minus_three_months_def

lemmas sample_defs = sample_env_def sample_table_def sample_decoder_def

section \<open>The parser and the result of a run\<close>

lemma parse_failure_shape:
  assumes "json_loads dec response = Inl e"
  shows "\<exists>d. parse_hedge_fund_response dec response = (PyNone, [d])"
  using assms by (simp add: parse_hedge_fund_response_def)

lemma json_loads_not_text:
  assumes "\<forall>s. response \<noteq> PyStr s"
  shows "json_loads dec response =
         Inl (Exn TypeError ''the JSON object must be str, bytes or bytearray'')"
  using assms by (cases response) (simp_all add: json_loads_def)

lemma run_hedge_fund_parsed:
  assumes "create_and_compile env
             (if selected_analysts \<noteq> [] then Some selected_analysts else None) = Inr agent"
    and "invoke env agent
           (initial_state tickers pf start_date end_date show_reasoning model_name model_provider)
         = Inr fs"
    and "messages fs \<noteq> []"
    and "parse_hedge_fund_response (json_decoder env) (last (messages fs)) = (d, out)"
  shows "run_hedge_fund env tickers start_date end_date pf show_reasoning selected_analysts
           model_name model_provider =
         ([Progress_start,
           Invoked (initial_state tickers pf start_date end_date show_reasoning
                      model_name model_provider)]
          @ map Printed out @ [Progress_stop],
          Inr \<lparr>decisions = d, analyst_signals = data_analyst_signals fs\<rparr>)"
  using assms unfolding run_hedge_fund_def by (simp add: Let_def)

text \<open>
  C1. When the content of the last message is not text, or is text the JSON decoder
  rejects, the parser returns \<^verbatim>\<open>None\<close> and prints one diagnostic; no exception leaves it.
  \<^verbatim>\<open>run_hedge_fund\<close> then returns a result whose decisions are \<^verbatim>\<open>None\<close> and whose
  analyst signals are those of the final state the stages produced.
\<close>

theorem parse_failure_keeps_signals:
  assumes bad: "(\<forall>s. last (messages fs) \<noteq> PyStr s) \<or>
                (\<exists>s e. last (messages fs) = PyStr s \<and> json_decoder env s = Inl e)"
    and build: "create_and_compile env
                  (if selected_analysts \<noteq> [] then Some selected_analysts else None) = Inr agent"
    and run: "invoke env agent
                (initial_state tickers pf start_date end_date show_reasoning model_name
                   model_provider) = Inr fs"
    and msgs: "messages fs \<noteq> []"
  shows "\<exists>d. parse_hedge_fund_response (json_decoder env) (last (messages fs)) = (PyNone, [d]) \<and>
             run_hedge_fund env tickers start_date end_date pf show_reasoning selected_analysts
               model_name model_provider =
             ([Progress_start,
               Invoked (initial_state tickers pf start_date end_date show_reasoning
                          model_name model_provider),
               Printed d, Progress_stop],
              Inr \<lparr>decisions = PyNone, analyst_signals = data_analyst_signals fs\<rparr>)"
proof -
  from bad have "\<exists>e. json_loads (json_decoder env) (last (messages fs)) = Inl e"
  proof
    assume "\<forall>s. last (messages fs) \<noteq> PyStr s"
    then show ?thesis using json_loads_not_text by blast
  next
    assume "\<exists>s e. last (messages fs) = PyStr s \<and> json_decoder env s = Inl e"
    then show ?thesis by (auto simp: json_loads_def)
  qed
  then obtain d where
    d: "parse_hedge_fund_response (json_decoder env) (last (messages fs)) = (PyNone, [d])"
    using parse_failure_shape by blast
  from run_hedge_fund_parsed [OF build run msgs d] d show ?thesis by simp
qed

lemma sample_build:
  "create_and_compile (sample_env c) (Some [''sentiment'']) =
     Inr \<lparr>nodes = [(''start_node'', start), (''sentiment_agent'', analyst_func ''sentiment''),
                   (''risk_management_agent'', risk_management_agent),
                   (''portfolio_manager'', portfolio_management_agent)],
          edges = {(''portfolio_manager'', ''__end__''),
                   (''risk_management_agent'', ''portfolio_manager''),
                   (''sentiment_agent'', ''risk_management_agent''),
                   (''start_node'', ''sentiment_agent'')},
          entry_point = Some ''start_node''\<rparr>"
  by (simp add: graph_defs sample_defs)

theorem parse_failure_keeps_signals_witness:
  "run_hedge_fund (sample_env (PyStr ''{'')) [''AAPL''] ''2024-01-01'' ''2024-04-01''
     (init_portfolio [''AAPL''] 1000 0) False [''sentiment''] ''gpt-4o'' ''OpenAI'' =
   ([Progress_start,
     Invoked (initial_state [''AAPL''] (init_portfolio [''AAPL''] 1000 0) ''2024-01-01''
                ''2024-04-01'' False ''gpt-4o'' ''OpenAI''),
     Printed (JSON_decoding_error ''Expecting value''), Progress_stop],
    Inr \<lparr>decisions = PyNone,
         analyst_signals = [''start_node'', ''sentiment_agent'', ''risk_management_agent'',
                            ''portfolio_manager'']\<rparr>)"
proof -
  let ?env = "sample_env (PyStr ''{'') :: string list env"
  let ?fs = "\<lparr>messages = [PyStr ''{''],
              data_analyst_signals = [''start_node'', ''sentiment_agent'',
                ''risk_management_agent'', ''portfolio_manager'']\<rparr>"
  let ?g = "\<lparr>nodes = [(''start_node'', start), (''sentiment_agent'', analyst_func ''sentiment''),
                   (''risk_management_agent'', risk_management_agent),
                   (''portfolio_manager'', portfolio_management_agent)],
          edges = {(''portfolio_manager'', ''__end__''),
                   (''risk_management_agent'', ''portfolio_manager''),
                   (''sentiment_agent'', ''risk_management_agent''),
                   (''start_node'', ''sentiment_agent'')},
          entry_point = Some ''start_node''\<rparr>"
  have bad: "(\<forall>s. last (messages ?fs) \<noteq> PyStr s) \<or>
             (\<exists>s e. last (messages ?fs) = PyStr s \<and> json_decoder ?env s = Inl e)"
    by (simp add: sample_defs)
  have build: "create_and_compile ?env
                 (if [''sentiment''] \<noteq> [] then Some [''sentiment''] else None) = Inr ?g"
    by (simp add: sample_build)
  have run: "invoke ?env ?g (initial_state [''AAPL''] (init_portfolio [''AAPL''] 1000 0)
       ''2024-01-01'' ''2024-04-01'' False ''gpt-4o'' ''OpenAI'') = Inr ?fs"
    by (simp add: sample_defs)
  have msgs: "messages ?fs \<noteq> []" by simp
  from parse_failure_keeps_signals [OF bad build run msgs]
  show ?thesis
    by (simp add: parse_hedge_fund_response_def json_loads_def sample_defs)
qed

text \<open>
  C10. The parser checks nothing beyond decoding: whatever value the decoder returns for
  the text, of whatever shape, is returned unchanged with nothing printed, and it becomes
  the decisions of the result of \<^verbatim>\<open>run_hedge_fund\<close>. The decisions of a successful run
  need therefore not be a dictionary from ticker to decision.
\<close>

theorem parser_returns_decoded_value_unchanged:
  assumes dec: "json_decoder env s = Inr v"
    and build: "create_and_compile env
                  (if selected_analysts \<noteq> [] then Some selected_analysts else None) = Inr agent"
    and run: "invoke env agent
                (initial_state tickers pf start_date end_date show_reasoning model_name
                   model_provider) = Inr fs"
    and msgs: "messages fs \<noteq> []"
    and content: "last (messages fs) = PyStr s"
  shows "parse_hedge_fund_response (json_decoder env) (PyStr s) = (v, []) \<and>
         run_hedge_fund env tickers start_date end_date pf show_reasoning selected_analysts
           model_name model_provider =
         ([Progress_start,
           Invoked (initial_state tickers pf start_date end_date show_reasoning
                      model_name model_provider),
           Progress_stop],
          Inr \<lparr>decisions = v, analyst_signals = data_analyst_signals fs\<rparr>)"
proof -
  have p: "parse_hedge_fund_response (json_decoder env) (last (messages fs)) = (v, [])"
    using dec content by (simp add: parse_hedge_fund_response_def json_loads_def)
  from run_hedge_fund_parsed [OF build run msgs p] p content show ?thesis by simp
qed

theorem parser_returns_decoded_value_unchanged_witness:
  "run_hedge_fund (sample_env (PyStr ''[1]'')) [''AAPL''] ''2024-01-01'' ''2024-04-01''
     (init_portfolio [''AAPL''] 1000 0) False [''sentiment''] ''gpt-4o'' ''OpenAI'' =
   ([Progress_start,
     Invoked (initial_state [''AAPL''] (init_portfolio [''AAPL''] 1000 0) ''2024-01-01''
                ''2024-04-01'' False ''gpt-4o'' ''OpenAI''),
     Progress_stop],
    Inr \<lparr>decisions = PyList [PyInt 1],
         analyst_signals = [''start_node'', ''sentiment_agent'', ''risk_management_agent'',
                            ''portfolio_manager'']\<rparr>)"
proof -
  let ?env = "sample_env (PyStr ''[1]'') :: string list env"
  let ?fs = "\<lparr>messages = [PyStr ''[1]''],
              data_analyst_signals = [''start_node'', ''sentiment_agent'',
                ''risk_management_agent'', ''portfolio_manager'']\<rparr>"
  let ?g = "\<lparr>nodes = [(''start_node'', start), (''sentiment_agent'', analyst_func ''sentiment''),
                   (''risk_management_agent'', risk_management_agent),
                   (''portfolio_manager'', portfolio_management_agent)],
          edges = {(''portfolio_manager'', ''__end__''),
                   (''risk_management_agent'', ''portfolio_manager''),
                   (''sentiment_agent'', ''risk_management_agent''),
                   (''start_node'', ''sentiment_agent'')},
          entry_point = Some ''start_node''\<rparr>"
  have dec: "json_decoder ?env ''[1]'' = Inr (PyList [PyInt 1])"
    by (simp add: sample_defs)
  have build: "create_and_compile ?env
                 (if [''sentiment''] \<noteq> [] then Some [''sentiment''] else None) = Inr ?g"
    by (simp add: sample_build)
  have run: "invoke ?env ?g (initial_state [''AAPL''] (init_portfolio [''AAPL''] 1000 0)
       ''2024-01-01'' ''2024-04-01'' False ''gpt-4o'' ''OpenAI'') = Inr ?fs"
    by (simp add: sample_defs)
  have msgs: "messages ?fs \<noteq> []" by simp
  have content: "last (messages ?fs) = PyStr ''[1]''" by simp
  from parser_returns_decoded_value_unchanged [OF dec build run msgs content]
  show ?thesis by simp
qed

section \<open>The shape of the graph\<close>

text \<open>
  The two loops of \<^verbatim>\<open>create_workflow\<close>, characterised: when they succeed and what they
  leave behind.
\<close>

lemma add_analyst_nodes_iff:
  "add_analyst_nodes reg ks g = Inr g' \<longleftrightarrow>
     (\<forall>k\<in>set ks. map_of reg k \<noteq> None) \<and>
     distinct (map (\<lambda>k. fst (the (map_of reg k))) ks) \<and>
     (\<forall>k\<in>set ks. fst (the (map_of reg k)) \<notin> fst ` set (nodes g) \<union> {END, START}) \<and>
     g' = g\<lparr>nodes := nodes g @ map (\<lambda>k. the (map_of reg k)) ks,
            edges := edges g \<union> (\<lambda>k. (''start_node'', fst (the (map_of reg k)))) ` set ks\<rparr>"
proof (induction ks arbitrary: g)
  case Nil
  show ?case by auto
next
  case (Cons k ks)
  show ?case
  proof (cases "map_of reg k")
    case None
    then show ?thesis by (simp add: lookup_analyst_def and_then_def)
  next
    case (Some entry)
    obtain n f where entry: "entry = (n, f)" by (cases entry)
    show ?thesis
    proof (cases "n \<in> fst ` set (nodes g) \<or> n = END \<or> n = START")
      case True
      then show ?thesis using Some entry
        by (auto simp: lookup_analyst_def and_then_def add_node_def add_edge_def)
    next
      case False
      let ?g2 = "g\<lparr>nodes := nodes g @ [(n, f)], edges := insert (''start_node'', n) (edges g)\<rparr>"
      have step: "add_analyst_nodes reg (k # ks) g = add_analyst_nodes reg ks ?g2"
        using False Some entry
        by (simp add: lookup_analyst_def and_then_def add_node_def add_edge_def END_def)
      show ?thesis
        unfolding step Cons.IH [of ?g2] using False Some entry
        by (auto simp: image_iff)
    qed
  qed
qed

lemma connect_analysts_iff:
  "connect_analysts reg ks g = Inr g' \<longleftrightarrow>
     (\<forall>k\<in>set ks. map_of reg k \<noteq> None \<and> fst (the (map_of reg k)) \<noteq> END) \<and>
     g' = g\<lparr>edges := edges g \<union> (\<lambda>k. (fst (the (map_of reg k)), ''risk_management_agent'')) ` set ks\<rparr>"
proof (induction ks arbitrary: g)
  case Nil
  show ?case by auto
next
  case (Cons k ks)
  show ?case
  proof (cases "map_of reg k")
    case None
    then show ?thesis by (simp add: lookup_analyst_def and_then_def)
  next
    case (Some entry)
    obtain n f where entry: "entry = (n, f)" by (cases entry)
    show ?thesis
    proof (cases "n = END")
      case True
      then show ?thesis using Some entry
        by (auto simp: lookup_analyst_def and_then_def add_edge_def)
    next
      case False
      let ?g2 = "g\<lparr>edges := insert (n, ''risk_management_agent'') (edges g)\<rparr>"
      have step: "connect_analysts reg (k # ks) g = connect_analysts reg ks ?g2"
        using False Some entry
        by (simp add: lookup_analyst_def and_then_def add_edge_def START_def)
      show ?thesis
        unfolding step Cons.IH [of ?g2] using False Some entry
        by auto
    qed
  qed
qed

lemma add_analyst_nodes_Inl:
  assumes "add_analyst_nodes reg ks g = Inl e"
  shows "\<not> ((\<forall>k\<in>set ks. map_of reg k \<noteq> None) \<and>
     distinct (map (\<lambda>k. fst (the (map_of reg k))) ks) \<and>
     (\<forall>k\<in>set ks. fst (the (map_of reg k)) \<notin> fst ` set (nodes g) \<union> {END, START}))"
proof
  assume c: "(\<forall>k\<in>set ks. map_of reg k \<noteq> None) \<and>
     distinct (map (\<lambda>k. fst (the (map_of reg k))) ks) \<and>
     (\<forall>k\<in>set ks. fst (the (map_of reg k)) \<notin> fst ` set (nodes g) \<union> {END, START})"
  have "\<exists>g'. add_analyst_nodes reg ks g = Inr g'"
    unfolding add_analyst_nodes_iff using c by blast
  with assms show False by simp
qed

lemma connect_analysts_Inl:
  assumes "connect_analysts reg ks g = Inl e"
  shows "\<not> (\<forall>k\<in>set ks. map_of reg k \<noteq> None \<and> fst (the (map_of reg k)) \<noteq> END)"
proof
  assume c: "\<forall>k\<in>set ks. map_of reg k \<noteq> None \<and> fst (the (map_of reg k)) \<noteq> END"
  have "\<exists>g'. connect_analysts reg ks g = Inr g'"
    unfolding connect_analysts_iff using c by blast
  with assms show False by simp
qed

lemma create_workflow_iff:
  "create_workflow reg (Some ks) = Inr g' \<longleftrightarrow>
     (\<forall>k\<in>set ks. map_of reg k \<noteq> None) \<and>
     distinct (map (\<lambda>k. fst (the (map_of reg k))) ks) \<and>
     (\<forall>k\<in>set ks. fst (the (map_of reg k)) \<notin>
         {''start_node'', ''risk_management_agent'', ''portfolio_manager'', END, START}) \<and>
     g' = \<lparr>nodes = (''start_node'', start) # map (\<lambda>k. the (map_of reg k)) ks
                   @ [(''risk_management_agent'', risk_management_agent),
                      (''portfolio_manager'', portfolio_management_agent)],
           edges = (\<lambda>k. (''start_node'', fst (the (map_of reg k)))) ` set ks
                   \<union> (\<lambda>k. (fst (the (map_of reg k)), ''risk_management_agent'')) ` set ks
                   \<union> {(''risk_management_agent'', ''portfolio_manager''), (''portfolio_manager'', END)},
           entry_point = Some ''start_node''\<rparr>"
  (is "?L \<longleftrightarrow> ?A \<and> ?D \<and> ?N \<and> ?G")
proof -
  let ?g0 = "\<lparr>nodes = [(''start_node'', start)], edges = {}, entry_point = None\<rparr>"
  have g0: "add_node ''start_node'' start StateGraph = Inr ?g0"
    by (simp add: add_node_def StateGraph_def END_def START_def)
  show ?thesis
  proof (cases "add_analyst_nodes reg ks ?g0")
    case (Inl e)
    from add_analyst_nodes_Inl [OF Inl] have "\<not> (?A \<and> ?D \<and> ?N)" by auto
    moreover have "\<not> ?L" using Inl g0 by (simp add: create_workflow_def and_then_def)
    ultimately show ?thesis by blast
  next
    case (Inr g1)
    then have c1: "?A" "?D"
      and n1: "\<forall>k\<in>set ks. fst (the (map_of reg k)) \<notin> {''start_node'', END, START}"
      and g1: "g1 = ?g0\<lparr>nodes := nodes ?g0 @ map (\<lambda>k. the (map_of reg k)) ks,
            edges := edges ?g0 \<union> (\<lambda>k. (''start_node'', fst (the (map_of reg k)))) ` set ks\<rparr>"
      unfolding add_analyst_nodes_iff by auto
    show ?thesis
    proof (cases "\<exists>k\<in>set ks. fst (the (map_of reg k)) \<in> {''risk_management_agent'', ''portfolio_manager''}")
      case True
      then have "\<not> ?N" by auto
      moreover have "\<not> ?L" using True Inr g0 g1
        by (auto simp: create_workflow_def and_then_def add_node_def image_iff split: sum.splits)
      ultimately show ?thesis by blast
    next
      case False
      have nE: "\<forall>k\<in>set ks. map_of reg k \<noteq> None \<and> fst (the (map_of reg k)) \<noteq> END"
        using c1 n1 by auto
      have N: "?N" using False n1 by auto
      let ?g3 = "g1\<lparr>nodes := nodes g1 @ [(''risk_management_agent'', risk_management_agent),
                      (''portfolio_manager'', portfolio_management_agent)]\<rparr>"
      have a2: "and_then (add_node ''risk_management_agent'' risk_management_agent g1)
                  (add_node ''portfolio_manager'' portfolio_management_agent) = Inr ?g3"
        using False g1
        by (auto simp: and_then_def add_node_def image_iff END_def START_def)
      obtain g4 where g4: "connect_analysts reg ks ?g3 = Inr g4"
        using nE connect_analysts_iff [of reg ks ?g3] by blast
      then have g4': "g4 = ?g3\<lparr>edges := edges ?g3 \<union>
          (\<lambda>k. (fst (the (map_of reg k)), ''risk_management_agent'')) ` set ks\<rparr>"
        unfolding connect_analysts_iff by simp
      have "create_workflow reg (Some ks) =
            Inr (set_entry_point ''start_node''
                   (g4\<lparr>edges := insert (''portfolio_manager'', END)
                      (insert (''risk_management_agent'', ''portfolio_manager'') (edges g4))\<rparr>))"
        using g0 Inr a2 g4
        by (auto simp: create_workflow_def and_then_def add_edge_def END_def START_def
            split: sum.splits)
      then show ?thesis using c1 N g4' g1
        by (auto simp: set_entry_point_def)
    qed
  qed
qed




text \<open>
  C6. Two lists of distinct keys with the same elements build the same plan, whatever
  the table: when one build returns a graph, so does the other, with as many nodes, the
  same set of nodes, the same edges and the same entry point; and when one build fails,
  so does the other.
\<close>

theorem build_order_insensitive:
  assumes "distinct xs" and "distinct ys" and "set xs = set ys"
  shows "(\<forall>g. create_workflow reg (Some xs) = Inr g \<longrightarrow>
            (\<exists>h. create_workflow reg (Some ys) = Inr h \<and>
                 length (nodes g) = length (nodes h) \<and>
                 set (nodes g) = set (nodes h) \<and>
                 edges g = edges h \<and>
                 entry_point g = entry_point h)) \<and>
         ((\<exists>e. create_workflow reg (Some xs) = Inl e) \<longleftrightarrow>
          (\<exists>e. create_workflow reg (Some ys) = Inl e))"
proof -
  have len: "length xs = length ys"
    using assms by (metis distinct_card)
  have dm: "distinct (map (\<lambda>k. fst (the (map_of reg k))) xs) \<longleftrightarrow>
            distinct (map (\<lambda>k. fst (the (map_of reg k))) ys)"
    using assms by (simp add: distinct_map)
  have fwd: "\<exists>h. create_workflow reg (Some ys) = Inr h \<and>
                 length (nodes g) = length (nodes h) \<and>
                 set (nodes g) = set (nodes h) \<and>
                 edges g = edges h \<and>
                 entry_point g = entry_point h"
    if "create_workflow reg (Some xs) = Inr g" for g
    using that dm len assms(3) unfolding create_workflow_iff by auto
  have bwd: "\<exists>g. create_workflow reg (Some xs) = Inr g"
    if "create_workflow reg (Some ys) = Inr h" for h
    using that dm assms(3) unfolding create_workflow_iff by auto
  have fail: "(\<exists>e. create_workflow reg (Some xs) = Inl e) \<longleftrightarrow>
          (\<exists>e. create_workflow reg (Some ys) = Inl e)"
  proof
    assume "\<exists>e. create_workflow reg (Some xs) = Inl e"
    then have "\<not> (\<exists>h. create_workflow reg (Some ys) = Inr h)" using bwd by auto
    then show "\<exists>e. create_workflow reg (Some ys) = Inl e"
      by (cases "create_workflow reg (Some ys)") auto
  next
    assume "\<exists>e. create_workflow reg (Some ys) = Inl e"
    then have "\<not> (\<exists>g. create_workflow reg (Some xs) = Inr g)" using fwd by auto
    then show "\<exists>e. create_workflow reg (Some xs) = Inl e"
      by (cases "create_workflow reg (Some xs)") auto
  qed
  show ?thesis using fwd fail by blast
qed

theorem build_order_insensitive_witness:
  "\<exists>g h. create_workflow sample_table (Some [''warren_buffett'', ''sentiment'']) = Inr g \<and>
         create_workflow sample_table (Some [''sentiment'', ''warren_buffett'']) = Inr h \<and>
         length (nodes g) = length (nodes h) \<and> edges g = edges h"
proof -
  let ?xs = "[''warren_buffett'', ''sentiment'']" and ?ys = "[''sentiment'', ''warren_buffett'']"
  have d1: "distinct ?xs" by simp
  have d2: "distinct ?ys" by simp
  have eq: "set ?xs = set ?ys" by (simp add: insert_commute)
  have "\<exists>g. create_workflow sample_table (Some ?xs) = Inr g"
    by (simp add: graph_defs sample_table_def)
  then obtain g where g: "create_workflow sample_table (Some ?xs) = Inr g" ..
  from build_order_insensitive [OF d1 d2 eq, of sample_table]
  have "\<forall>g. create_workflow sample_table (Some ?xs) = Inr g \<longrightarrow>
            (\<exists>h. create_workflow sample_table (Some ?ys) = Inr h \<and>
                 length (nodes g) = length (nodes h) \<and>
                 set (nodes g) = set (nodes h) \<and>
                 edges g = edges h \<and>
                 entry_point g = entry_point h)"
    by (rule conjunct1)
  then have "create_workflow sample_table (Some ?xs) = Inr g \<longrightarrow>
            (\<exists>h. create_workflow sample_table (Some ?ys) = Inr h \<and>
                 length (nodes g) = length (nodes h) \<and>
                 set (nodes g) = set (nodes h) \<and>
                 edges g = edges h \<and>
                 entry_point g = entry_point h)"
    by (rule spec)
  then have "\<exists>h. create_workflow sample_table (Some ?ys) = Inr h \<and>
                 length (nodes g) = length (nodes h) \<and>
                 set (nodes g) = set (nodes h) \<and>
                 edges g = edges h \<and>
                 entry_point g = entry_point h"
    using g by (rule mp)
  then obtain h where h: "create_workflow sample_table (Some ?ys) = Inr h"
    and l: "length (nodes g) = length (nodes h)" and e: "edges g = edges h"
    by (elim exE conjE)
  show ?thesis by (intro exI [of _ g] exI [of _ h] conjI) (rule g h l e)+
qed

text \<open>
  C4. An empty list of keys does not make \<^verbatim>\<open>create_workflow\<close> fail: it returns the plan
  of the three fixed nodes. Called without a selection it takes every key of the table.
  The callers do not pass on an empty selection: \<^verbatim>\<open>run_hedge_fund\<close> builds the graph of
  all analysts for it, and \<^verbatim>\<open>run_hedge_fund_gui\<close> replaces an empty or missing selection
  by the keys of \<^verbatim>\<open>ANALYST_ORDER\<close>.
\<close>

theorem empty_selection_builds:
  "create_workflow reg (Some []) =
     Inr \<lparr>nodes = [(''start_node'', start), (''risk_management_agent'', risk_management_agent),
                   (''portfolio_manager'', portfolio_management_agent)],
          edges = {(''risk_management_agent'', ''portfolio_manager''), (''portfolio_manager'', END)},
          entry_point = Some ''start_node''\<rparr> \<and>
   create_workflow reg None = create_workflow reg (Some (map fst reg)) \<and>
   run_hedge_fund env tickers start_date end_date pf show_reasoning [] model_name model_provider =
     run_hedge_fund env tickers start_date end_date pf show_reasoning
       (map fst (get_analyst_nodes env)) model_name model_provider \<and>
   resolve_analysts env (Some []) =
     (case ANALYST_ORDER env of Some order \<Rightarrow> map snd order | None \<Rightarrow> default_analysts) \<and>
   resolve_analysts env None = resolve_analysts env (Some [])"
proof -
  have a: "create_workflow reg (Some []) =
     Inr \<lparr>nodes = [(''start_node'', start), (''risk_management_agent'', risk_management_agent),
                   (''portfolio_manager'', portfolio_management_agent)],
          edges = {(''risk_management_agent'', ''portfolio_manager''), (''portfolio_manager'', END)},
          entry_point = Some ''start_node''\<rparr>"
    unfolding create_workflow_iff by auto
  have b: "create_workflow reg None = create_workflow reg (Some (map fst reg))"
    by (simp add: create_workflow_def)
  have c: "create_and_compile env None = create_and_compile env (Some (map fst (get_analyst_nodes env)))"
    by (simp add: create_and_compile_def create_workflow_def)
  have d: "run_hedge_fund env tickers start_date end_date pf show_reasoning [] model_name model_provider =
     run_hedge_fund env tickers start_date end_date pf show_reasoning
       (map fst (get_analyst_nodes env)) model_name model_provider"
    unfolding run_hedge_fund_def using c by simp
  have e: "resolve_analysts env (Some []) =
     (case ANALYST_ORDER env of Some order \<Rightarrow> map snd order | None \<Rightarrow> default_analysts)"
    by (simp add: resolve_analysts_def)
  have f: "resolve_analysts env None = resolve_analysts env (Some [])"
    by (simp add: resolve_analysts_def)
  show ?thesis using a b d e f by simp
qed

text \<open>The claim asks for a failure where the code returns a plan.\<close>

theorem empty_selection_counterexample:
  "create_workflow sample_table (Some []) =
     Inr \<lparr>nodes = [(''start_node'', start), (''risk_management_agent'', risk_management_agent),
                   (''portfolio_manager'', portfolio_management_agent)],
          edges = {(''risk_management_agent'', ''portfolio_manager''),
                   (''portfolio_manager'', ''__end__'')},
          entry_point = Some ''start_node''\<rparr>"
  by (simp add: graph_defs insert_commute)

section \<open>What the entry point does before and while it runs the pipeline\<close>

lemma dict_comprehension_apply:
  "dict_comprehension v ks d k = (if k \<in> set ks then Some v else d k)"
  by (induction ks arbitrary: d) auto

lemma dict_comprehension_dom:
  "dom (dict_comprehension v ks d) = dom d \<union> set ks"
  by (auto simp: dict_comprehension_apply dom_def)

lemma run_hedge_fund_invoked:
  assumes "Invoked inp \<in> set (fst (run_hedge_fund env tickers start_date end_date pf show_reasoning
             selected_analysts model_name model_provider))"
  shows "inp = initial_state tickers pf start_date end_date show_reasoning model_name model_provider"
  using assms unfolding run_hedge_fund_def
  by (auto simp: Let_def split: sum.splits if_splits prod.splits)

lemma run_hedge_fund_no_fallback:
  "Fallback \<notin> set (fst (run_hedge_fund env tickers start_date end_date pf show_reasoning
             selected_analysts model_name model_provider))"
  unfolding run_hedge_fund_def
  by (auto simp: Let_def split: sum.splits if_splits prod.splits)

lemma build_with_fallback_events:
  "fst (build_with_fallback env sel) = [] \<or> fst (build_with_fallback env sel) = [Fallback]"
  unfolding build_with_fallback_def by (auto split: sum.splits)

lemma gui_body_invoked:
  assumes "Invoked inp \<in> set (fst (run_hedge_fund_gui_body env tickers start_date end_date
             initial_cash margin_req show_reasoning selected_analysts model_name model_provider))"
  shows "\<exists>s e. and_then (validate_dates start_date end_date)
                  (\<lambda>u. resolve_dates env start_date end_date) = Inr (s, e) \<and>
           inp = initial_state (resolve_tickers tickers)
                   (init_portfolio (resolve_tickers tickers) initial_cash margin_req)
                   s e show_reasoning model_name model_provider"
proof (cases "and_then (validate_dates start_date end_date)
                  (\<lambda>u. resolve_dates env start_date end_date)")
  case (Inl e)
  then show ?thesis using assms by (simp add: run_hedge_fund_gui_body_def Let_def)
next
  case (Inr p)
  obtain s e where p: "p = (s, e)" by (cases p)
  obtain evs1 r1 where b: "build_with_fallback env (resolve_analysts env selected_analysts) = (evs1, r1)"
    by (cases "build_with_fallback env (resolve_analysts env selected_analysts)")
  have e1: "Invoked inp \<notin> set evs1"
    using build_with_fallback_events [of env "resolve_analysts env selected_analysts"] b by auto
  show ?thesis
  proof (cases r1)
    case (Inl err)
    then show ?thesis using assms Inr p b e1
      by (simp add: run_hedge_fund_gui_body_def Let_def)
  next
    case r: (Inr q)
    obtain app sel2 where q: "q = (app, sel2)" by (cases q)
    let ?run = "run_hedge_fund env (resolve_tickers tickers) s e
                  (init_portfolio (resolve_tickers tickers) initial_cash margin_req)
                  show_reasoning sel2 model_name model_provider"
    have "Invoked inp \<in> set (fst ?run)"
      using assms Inr p b r q e1
      by (auto simp: run_hedge_fund_gui_body_def Let_def split: prod.splits sum.splits option.splits)
    from run_hedge_fund_invoked [OF this] show ?thesis using Inr p by simp
  qed
qed

lemma gui_events: "fst (run_hedge_fund_gui env tk sd ed c m sr sa mn mp) =
   fst (run_hedge_fund_gui_body env tk sd ed c m sr sa mn mp)"
  by (simp add: run_hedge_fund_gui_def split: prod.splits sum.splits)

lemmas run_defs =
  run_hedge_fund_gui_def run_hedge_fund_gui_body_def run_hedge_fund_def build_with_fallback_def
  resolve_analysts_def resolve_tickers_def resolve_dates_def validate_dates_def check_date_def
  parse_hedge_fund_response_def json_loads_def default_analysts_def Let_def

lemma sample_run:
  "run_hedge_fund_gui (sample_env (PyStr ''{}'')) (Tickers_list [''AAPL'', ''MSFT''])
     ''2024-01-01'' ''2024-04-01'' c m False (Some [''sentiment'']) ''gpt-4o'' ''OpenAI'' =
   ([Progress_start,
     Invoked (initial_state [''AAPL'', ''MSFT''] (init_portfolio [''AAPL'', ''MSFT''] c m)
                ''2024-01-01'' ''2024-04-01'' False ''gpt-4o'' ''OpenAI''),
     Progress_stop, Reported],
    Inr (Completed \<lparr>decisions = PyDict [],
           analyst_signals = [''start_node'', ''sentiment_agent'', ''risk_management_agent'',
                              ''portfolio_manager'']\<rparr>))"
  by (simp add: run_defs graph_defs date_defs sample_defs)

text \<open>
  C7. The portfolio built from the tickers, the initial cash and the margin requirement
  holds the cash and the margin requirement as given and no margin used; its positions
  and its realized gains have exactly the requested tickers as keys, each with all fields
  zero. \<^verbatim>\<open>run_hedge_fund_gui\<close> hands this portfolio, unchanged, to the pipeline together
  with the same tickers.
\<close>

theorem portfolio_construction:
  "cash (init_portfolio ts c m) = c \<and>
   margin_requirement (init_portfolio ts c m) = m \<and>
   margin_used (init_portfolio ts c m) = 0 \<and>
   dom (positions (init_portfolio ts c m)) = set ts \<and>
   dom (realized_gains (init_portfolio ts c m)) = set ts \<and>
   (\<forall>t\<in>set ts.
      positions (init_portfolio ts c m) t =
        Some \<lparr>long = 0, short = 0, long_cost_basis = 0, short_cost_basis = 0,
              short_margin_used = 0\<rparr> \<and>
      realized_gains (init_portfolio ts c m) t = Some \<lparr>long_gains = 0, short_gains = 0\<rparr>) \<and>
   (\<forall>inp. Invoked inp \<in> set (fst (run_hedge_fund_gui env tk sd ed c m sr sa mn mp)) \<longrightarrow>
      in_tickers inp = resolve_tickers tk \<and>
      in_portfolio inp = init_portfolio (resolve_tickers tk) c m)"
proof -
  have a: "dom (positions (init_portfolio ts c m)) = set ts"
    by (simp add: init_portfolio_def dict_comprehension_dom)
  have b: "dom (realized_gains (init_portfolio ts c m)) = set ts"
    by (simp add: init_portfolio_def dict_comprehension_dom)
  have z: "\<forall>t\<in>set ts.
      positions (init_portfolio ts c m) t =
        Some \<lparr>long = 0, short = 0, long_cost_basis = 0, short_cost_basis = 0,
              short_margin_used = 0\<rparr> \<and>
      realized_gains (init_portfolio ts c m) t = Some \<lparr>long_gains = 0, short_gains = 0\<rparr>"
    by (simp add: init_portfolio_def dict_comprehension_apply new_position_def new_gains_def)
  have i: "in_tickers inp = resolve_tickers tk \<and>
      in_portfolio inp = init_portfolio (resolve_tickers tk) c m"
    if "Invoked inp \<in> set (fst (run_hedge_fund_gui env tk sd ed c m sr sa mn mp))" for inp
  proof -
    from that have "Invoked inp \<in> set (fst (run_hedge_fund_gui_body env tk sd ed c m sr sa mn mp))"
      by (simp add: gui_events)
    from gui_body_invoked [OF this] show ?thesis by (auto simp: initial_state_def)
  qed
  show ?thesis using a b z i by (simp add: init_portfolio_def)
qed

theorem portfolio_construction_witness:
  "cash (init_portfolio [''AAPL'', ''MSFT''] 100000 0) = 100000 \<and>
   margin_used (init_portfolio [''AAPL'', ''MSFT''] 100000 0) = 0 \<and>
   dom (positions (init_portfolio [''AAPL'', ''MSFT''] 100000 0)) = {''AAPL'', ''MSFT''} \<and>
   dom (realized_gains (init_portfolio [''AAPL'', ''MSFT''] 100000 0)) = {''AAPL'', ''MSFT''} \<and>
   positions (init_portfolio [''AAPL'', ''MSFT''] 100000 0) ''AAPL'' =
     Some \<lparr>long = 0, short = 0, long_cost_basis = 0, short_cost_basis = 0,
           short_margin_used = 0\<rparr> \<and>
   positions (init_portfolio [''AAPL'', ''MSFT''] 100000 0) ''MSFT'' =
     Some \<lparr>long = 0, short = 0, long_cost_basis = 0, short_cost_basis = 0,
           short_margin_used = 0\<rparr> \<and>
   realized_gains (init_portfolio [''AAPL'', ''MSFT''] 100000 0) ''AAPL'' =
     Some \<lparr>long_gains = 0, short_gains = 0\<rparr> \<and>
   realized_gains (init_portfolio [''AAPL'', ''MSFT''] 100000 0) ''MSFT'' =
     Some \<lparr>long_gains = 0, short_gains = 0\<rparr> \<and>
   in_portfolio (initial_state [''AAPL'', ''MSFT''] (init_portfolio [''AAPL'', ''MSFT''] 100000 0)
                   ''2024-01-01'' ''2024-04-01'' False ''gpt-4o'' ''OpenAI'') =
     init_portfolio (resolve_tickers (Tickers_list [''AAPL'', ''MSFT''])) 100000 0"
proof -
  let ?inp = "initial_state [''AAPL'', ''MSFT''] (init_portfolio [''AAPL'', ''MSFT''] 100000 0)
                   ''2024-01-01'' ''2024-04-01'' False ''gpt-4o'' ''OpenAI''"
  have inv: "Invoked ?inp \<in> set (fst (run_hedge_fund_gui (sample_env (PyStr ''{}''))
     (Tickers_list [''AAPL'', ''MSFT'']) ''2024-01-01'' ''2024-04-01'' 100000 0 False
     (Some [''sentiment'']) ''gpt-4o'' ''OpenAI''))"
    unfolding sample_run by simp
  have mem: "''AAPL'' \<in> set [''AAPL'', ''MSFT'']" "''MSFT'' \<in> set [''AAPL'', ''MSFT'']"
    by simp_all
  note p = portfolio_construction [of "[''AAPL'', ''MSFT'']" 100000 0 "sample_env (PyStr ''{}'')"
      "Tickers_list [''AAPL'', ''MSFT'']" "''2024-01-01''" "''2024-04-01''" False
      "Some [''sentiment'']" "''gpt-4o''" "''OpenAI''"]
  from p have q: "\<forall>inp. Invoked inp \<in> set (fst (run_hedge_fund_gui (sample_env (PyStr ''{}''))
     (Tickers_list [''AAPL'', ''MSFT'']) ''2024-01-01'' ''2024-04-01'' 100000 0 False
     (Some [''sentiment'']) ''gpt-4o'' ''OpenAI'')) \<longrightarrow>
      in_tickers inp = resolve_tickers (Tickers_list [''AAPL'', ''MSFT'']) \<and>
      in_portfolio inp = init_portfolio (resolve_tickers (Tickers_list [''AAPL'', ''MSFT''])) 100000 0"
    by (elim conjE)
  have i: "in_portfolio ?inp =
     init_portfolio (resolve_tickers (Tickers_list [''AAPL'', ''MSFT''])) 100000 0"
    using q [rule_format, OF inv] by (rule conjunct2)
  from p have r: "\<forall>t\<in>set [''AAPL'', ''MSFT''].
      positions (init_portfolio [''AAPL'', ''MSFT''] 100000 0) t =
        Some \<lparr>long = 0, short = 0, long_cost_basis = 0, short_cost_basis = 0,
              short_margin_used = 0\<rparr> \<and>
      realized_gains (init_portfolio [''AAPL'', ''MSFT''] 100000 0) t =
        Some \<lparr>long_gains = 0, short_gains = 0\<rparr>"
    by (elim conjE)
  note z = r [rule_format, OF mem(1)] r [rule_format, OF mem(2)]
  from p have d1: "cash (init_portfolio [''AAPL'', ''MSFT''] 100000 0) = 100000"
    by (elim conjE)
  from p have d2: "margin_used (init_portfolio [''AAPL'', ''MSFT''] 100000 0) = 0"
    by (elim conjE)
  from p have d3: "dom (positions (init_portfolio [''AAPL'', ''MSFT''] 100000 0)) =
                   set [''AAPL'', ''MSFT'']"
    by (elim conjE)
  from p have d4: "dom (realized_gains (init_portfolio [''AAPL'', ''MSFT''] 100000 0)) =
                   set [''AAPL'', ''MSFT'']"
    by (elim conjE)
  show ?thesis using d1 d2 d3 d4 z i by simp
qed

lemma run_hedge_fund_reaches_invoke:
  "(\<exists>inp. Invoked inp \<in> set (fst (run_hedge_fund env tickers start_date end_date pf
        show_reasoning selected_analysts model_name model_provider))) \<longleftrightarrow>
   (\<exists>agent. create_and_compile env
        (if selected_analysts \<noteq> [] then Some selected_analysts else None) = Inr agent)"
  unfolding run_hedge_fund_def
  by (auto simp: Let_def split: sum.splits if_splits prod.splits)

lemma gui_body_reaches_invoke:
  "(\<exists>inp. Invoked inp \<in> set (fst (run_hedge_fund_gui_body env tk sd ed c m sr sa mn mp))) \<longleftrightarrow>
   (\<exists>s e app sel2 agent.
      and_then (validate_dates sd ed) (\<lambda>u. resolve_dates env sd ed) = Inr (s, e) \<and>
      snd (build_with_fallback env (resolve_analysts env sa)) = Inr (app, sel2) \<and>
      create_and_compile env (if sel2 \<noteq> [] then Some sel2 else None) = Inr agent)"
proof (cases "and_then (validate_dates sd ed) (\<lambda>u. resolve_dates env sd ed)")
  case (Inl e)
  then show ?thesis by (simp add: run_hedge_fund_gui_body_def Let_def)
next
  case (Inr p)
  obtain s e where p: "p = (s, e)" by (cases p)
  obtain evs1 r1 where b: "build_with_fallback env (resolve_analysts env sa) = (evs1, r1)"
    by (cases "build_with_fallback env (resolve_analysts env sa)")
  have e1: "\<And>inp. Invoked inp \<notin> set evs1"
    using build_with_fallback_events [of env "resolve_analysts env sa"] b by auto
  show ?thesis
  proof (cases r1)
    case (Inl err)
    then show ?thesis using Inr p b e1
      by (simp add: run_hedge_fund_gui_body_def Let_def)
  next
    case r: (Inr q)
    obtain app sel2 where q: "q = (app, sel2)" by (cases q)
    let ?run = "run_hedge_fund env (resolve_tickers tk) s e
                  (init_portfolio (resolve_tickers tk) c m) sr sel2 mn mp"
    have "(\<exists>inp. Invoked inp \<in> set (fst (run_hedge_fund_gui_body env tk sd ed c m sr sa mn mp)))
          \<longleftrightarrow> (\<exists>inp. Invoked inp \<in> set (fst ?run))"
      using Inr p b r q e1
      by (auto simp: run_hedge_fund_gui_body_def Let_def split: prod.splits sum.splits option.splits)
    also have "\<dots> \<longleftrightarrow> (\<exists>agent. create_and_compile env
        (if sel2 \<noteq> [] then Some sel2 else None) = Inr agent)"
      by (rule run_hedge_fund_reaches_invoke)
    finally show ?thesis using Inr p b r q by simp
  qed
qed

text \<open>
  C3. The entry point checks neither the initial cash nor the margin requirement: whatever
  they are, the portfolio handed to the pipeline holds them as given, and whether the
  pipeline is reached at all does not depend on them.
\<close>

theorem cash_and_margin_not_validated:
  "(\<forall>inp. Invoked inp \<in> set (fst (run_hedge_fund_gui env tk sd ed c m sr sa mn mp)) \<longrightarrow>
      cash (in_portfolio inp) = c \<and>
      margin_requirement (in_portfolio inp) = m \<and>
      margin_used (in_portfolio inp) = 0) \<and>
   ((\<exists>inp. Invoked inp \<in> set (fst (run_hedge_fund_gui env tk sd ed c m sr sa mn mp))) \<longleftrightarrow>
    (\<exists>inp. Invoked inp \<in> set (fst (run_hedge_fund_gui env tk sd ed c' m' sr sa mn mp))))"
proof -
  have i: "cash (in_portfolio inp) = c \<and> margin_requirement (in_portfolio inp) = m \<and>
           margin_used (in_portfolio inp) = 0"
    if "Invoked inp \<in> set (fst (run_hedge_fund_gui env tk sd ed c m sr sa mn mp))" for inp
  proof -
    from that have "Invoked inp \<in> set (fst (run_hedge_fund_gui_body env tk sd ed c m sr sa mn mp))"
      by (simp add: gui_events)
    from gui_body_invoked [OF this] show ?thesis
      by (auto simp: initial_state_def init_portfolio_def)
  qed
  have r: "(\<exists>inp. Invoked inp \<in> set (fst (run_hedge_fund_gui env tk sd ed c m sr sa mn mp))) \<longleftrightarrow>
    (\<exists>inp. Invoked inp \<in> set (fst (run_hedge_fund_gui env tk sd ed c' m' sr sa mn mp)))"
    unfolding gui_events gui_body_reaches_invoke ..
  show ?thesis using i r by blast
qed

theorem cash_and_margin_not_validated_witness:
  "cash (in_portfolio (initial_state [''AAPL'', ''MSFT''] (init_portfolio [''AAPL'', ''MSFT''] 0 (3 / 2))
                ''2024-01-01'' ''2024-04-01'' False ''gpt-4o'' ''OpenAI'')) = 0 \<and>
   margin_requirement (in_portfolio (initial_state [''AAPL'', ''MSFT'']
                (init_portfolio [''AAPL'', ''MSFT''] 0 (3 / 2))
                ''2024-01-01'' ''2024-04-01'' False ''gpt-4o'' ''OpenAI'')) = 3 / 2"
proof -
  let ?inp = "initial_state [''AAPL'', ''MSFT''] (init_portfolio [''AAPL'', ''MSFT''] 0 (3 / 2))
                ''2024-01-01'' ''2024-04-01'' False ''gpt-4o'' ''OpenAI''"
  have inv: "Invoked ?inp \<in> set (fst (run_hedge_fund_gui (sample_env (PyStr ''{}''))
     (Tickers_list [''AAPL'', ''MSFT'']) ''2024-01-01'' ''2024-04-01'' 0 (3 / 2) False
     (Some [''sentiment'']) ''gpt-4o'' ''OpenAI''))"
    unfolding sample_run by simp
  from cash_and_margin_not_validated [of "sample_env (PyStr ''{}'')"
      "Tickers_list [''AAPL'', ''MSFT'']" "''2024-01-01''" "''2024-04-01''" 0 "3 / 2" False
      "Some [''sentiment'']" "''gpt-4o''" "''OpenAI''" 0 0]
  have "\<forall>inp. Invoked inp \<in> set (fst (run_hedge_fund_gui (sample_env (PyStr ''{}''))
     (Tickers_list [''AAPL'', ''MSFT'']) ''2024-01-01'' ''2024-04-01'' 0 (3 / 2) False
     (Some [''sentiment'']) ''gpt-4o'' ''OpenAI'')) \<longrightarrow>
      cash (in_portfolio inp) = 0 \<and>
      margin_requirement (in_portfolio inp) = 3 / 2 \<and>
      margin_used (in_portfolio inp) = 0"
    by (rule conjunct1)
  from this [rule_format, OF inv] show ?thesis by simp
qed

text \<open>
  The claim asks for a failure before any stage runs; with no cash and a margin
  requirement of 1.5 the stages run and the run completes.
\<close>

theorem validation_error_counterexample:
  "run_hedge_fund_gui (sample_env (PyStr ''{}'')) (Tickers_list [''AAPL'', ''MSFT''])
     ''2024-01-01'' ''2024-04-01'' 0 (3 / 2) False (Some [''sentiment'']) ''gpt-4o'' ''OpenAI'' =
   ([Progress_start,
     Invoked (initial_state [''AAPL'', ''MSFT''] (init_portfolio [''AAPL'', ''MSFT''] 0 (3 / 2))
                ''2024-01-01'' ''2024-04-01'' False ''gpt-4o'' ''OpenAI''),
     Progress_stop, Reported],
    Inr (Completed \<lparr>decisions = PyDict [],
           analyst_signals = [''start_node'', ''sentiment_agent'', ''risk_management_agent'',
                              ''portfolio_manager'']\<rparr>)) \<and>
   cash (init_portfolio [''AAPL'', ''MSFT''] 0 (3 / 2)) = 0 \<and>
   margin_requirement (init_portfolio [''AAPL'', ''MSFT''] 0 (3 / 2)) = 3 / 2"
  by (simp add: sample_run init_portfolio_def)

section \<open>Failures at the entry point\<close>

lemma unknown_key_fails:
  assumes "k \<in> set ks" and "map_of (get_analyst_nodes env) k = None"
  shows "\<exists>e. create_and_compile env (Some ks) = Inl e"
proof (cases "create_workflow (get_analyst_nodes env) (Some ks)")
  case (Inl e)
  then show ?thesis by (simp add: create_and_compile_def and_then_def)
next
  case (Inr g)
  then have "\<forall>k\<in>set ks. map_of (get_analyst_nodes env) k \<noteq> None"
    unfolding create_workflow_iff by simp
  with assms show ?thesis by auto
qed

lemma build_with_fallback_after_failure:
  assumes "create_and_compile env (Some sel) = Inl err"
  shows "build_with_fallback env sel =
           ([Fallback],
            map_sum id (\<lambda>app. (app, default_analysts))
              (create_and_compile env (Some default_analysts)))"
  using assms by (simp add: build_with_fallback_def split: sum.splits)

lemma gui_body_fallback_count:
  "length (filter (\<lambda>ev. ev = Fallback)
      (fst (run_hedge_fund_gui_body env tk sd ed c m sr sa mn mp))) =
   (if (\<exists>p. and_then (validate_dates sd ed) (\<lambda>u. resolve_dates env sd ed) = Inr p) \<and>
       (\<exists>err. create_and_compile env (Some (resolve_analysts env sa)) = Inl err)
    then 1 else 0)"
proof (cases "and_then (validate_dates sd ed) (\<lambda>u. resolve_dates env sd ed)")
  case (Inl e)
  then show ?thesis by (simp add: run_hedge_fund_gui_body_def Let_def)
next
  case (Inr p)
  obtain s e where p: "p = (s, e)" by (cases p)
  have nf: "filter (\<lambda>ev. ev = Fallback)
      (fst (run_hedge_fund env tks s e pf sr sel mn mp)) = []" for tks pf sel
    using run_hedge_fund_no_fallback [of env tks s e pf sr sel mn mp]
    by (auto simp: filter_empty_conv)
  show ?thesis
  proof (cases "create_and_compile env (Some (resolve_analysts env sa))")
    case ok: (Inr app)
    obtain evs2 r2 where run: "run_hedge_fund env (resolve_tickers tk) s e
        (init_portfolio (resolve_tickers tk) c m) sr (resolve_analysts env sa) mn mp = (evs2, r2)"
      by (cases "run_hedge_fund env (resolve_tickers tk) s e
        (init_portfolio (resolve_tickers tk) c m) sr (resolve_analysts env sa) mn mp")
    have "filter (\<lambda>ev. ev = Fallback) evs2 = []"
      using nf [of "resolve_tickers tk" "init_portfolio (resolve_tickers tk) c m"
          "resolve_analysts env sa"] run by simp
    then show ?thesis using Inr p ok run
      by (auto simp: run_hedge_fund_gui_body_def build_with_fallback_def Let_def
          split: sum.splits option.splits)
  next
    case bad: (Inl err)
    show ?thesis
    proof (cases "create_and_compile env (Some default_analysts)")
      case (Inl err2)
      then show ?thesis using Inr p bad
        by (simp add: run_hedge_fund_gui_body_def build_with_fallback_def Let_def)
    next
      case ok: (Inr app)
      obtain evs2 r2 where run: "run_hedge_fund env (resolve_tickers tk) s e
          (init_portfolio (resolve_tickers tk) c m) sr default_analysts mn mp = (evs2, r2)"
        by (cases "run_hedge_fund env (resolve_tickers tk) s e
          (init_portfolio (resolve_tickers tk) c m) sr default_analysts mn mp")
      have "filter (\<lambda>ev. ev = Fallback) evs2 = []"
        using nf [of "resolve_tickers tk" "init_portfolio (resolve_tickers tk) c m"
            default_analysts] run by simp
      then show ?thesis using Inr p bad ok run
        by (auto simp: run_hedge_fund_gui_body_def build_with_fallback_def Let_def
            split: sum.splits option.splits)
    qed
  qed
qed

text \<open>
  C2. When the first build of the graph fails (an unknown key in the selection makes it
  fail), \<^verbatim>\<open>run_hedge_fund_gui\<close> falls back once: it rebuilds with the three default
  keys. When that build fails too, the run ends with the error dictionary of that failure
  and nothing else happens. No run falls back more than once.
\<close>

theorem single_fallback:
  "length (filter (\<lambda>ev. ev = Fallback)
      (fst (run_hedge_fund_gui env tk sd ed c m sr sa mn mp))) \<le> 1 \<and>
   (and_then (validate_dates sd ed) (\<lambda>u. resolve_dates env sd ed) = Inr (s1, e1) \<and>
    ((\<exists>k\<in>set (resolve_analysts env sa). map_of (get_analyst_nodes env) k = None) \<or>
     (\<exists>err. create_and_compile env (Some (resolve_analysts env sa)) = Inl err)) \<longrightarrow>
    default_analysts = [''warren_buffett'', ''peter_lynch'', ''technical_analyst''] \<and>
    build_with_fallback env (resolve_analysts env sa) =
      ([Fallback],
       map_sum id (\<lambda>app. (app, default_analysts))
         (create_and_compile env (Some default_analysts))) \<and>
    (\<forall>err2. create_and_compile env (Some default_analysts) = Inl err2 \<longrightarrow>
       run_hedge_fund_gui env tk sd ed c m sr sa mn mp =
         ([Fallback], Inr (Failed (str_of err2) err2))) \<and>
    length (filter (\<lambda>ev. ev = Fallback)
      (fst (run_hedge_fund_gui env tk sd ed c m sr sa mn mp))) = 1)"
proof -
  have le: "length (filter (\<lambda>ev. ev = Fallback)
      (fst (run_hedge_fund_gui env tk sd ed c m sr sa mn mp))) \<le> 1"
    unfolding gui_events gui_body_fallback_count by simp
  have main: "default_analysts = [''warren_buffett'', ''peter_lynch'', ''technical_analyst''] \<and>
    build_with_fallback env (resolve_analysts env sa) =
      ([Fallback],
       map_sum id (\<lambda>app. (app, default_analysts))
         (create_and_compile env (Some default_analysts))) \<and>
    (\<forall>err2. create_and_compile env (Some default_analysts) = Inl err2 \<longrightarrow>
       run_hedge_fund_gui env tk sd ed c m sr sa mn mp =
         ([Fallback], Inr (Failed (str_of err2) err2))) \<and>
    length (filter (\<lambda>ev. ev = Fallback)
      (fst (run_hedge_fund_gui env tk sd ed c m sr sa mn mp))) = 1"
    if dates: "and_then (validate_dates sd ed) (\<lambda>u. resolve_dates env sd ed) = Inr (s1, e1)"
      and fail: "(\<exists>k\<in>set (resolve_analysts env sa). map_of (get_analyst_nodes env) k = None) \<or>
                 (\<exists>err. create_and_compile env (Some (resolve_analysts env sa)) = Inl err)"
  proof -
    from fail obtain err where
      err: "create_and_compile env (Some (resolve_analysts env sa)) = Inl err"
      using unknown_key_fails by blast
    note b = build_with_fallback_after_failure [OF err]
    have fatal: "run_hedge_fund_gui env tk sd ed c m sr sa mn mp =
         ([Fallback], Inr (Failed (str_of err2) err2))"
      if "create_and_compile env (Some default_analysts) = Inl err2" for err2
      using that dates b
      by (simp add: run_hedge_fund_gui_def run_hedge_fund_gui_body_def Let_def)
    have one: "length (filter (\<lambda>ev. ev = Fallback)
      (fst (run_hedge_fund_gui env tk sd ed c m sr sa mn mp))) = 1"
      unfolding gui_events gui_body_fallback_count using dates err by simp
    show ?thesis using b fatal one by (simp add: default_analysts_def)
  qed
  show ?thesis using le main by blast
qed

theorem single_fallback_witness:
  "run_hedge_fund_gui
     ((sample_env (PyStr ''{}''))
        \<lparr>get_analyst_nodes := [(''sentiment'', (''sentiment_agent'', analyst_func ''sentiment''))]\<rparr>)
     (Tickers_list [''AAPL'']) ''2024-01-01'' ''2024-04-01'' 100000 0 False (Some [''momentum''])
     ''gpt-4o'' ''OpenAI'' =
   ([Fallback],
    Inr (Failed ([CHR 0x27] @ ''warren_buffett'' @ [CHR 0x27])
           (Exn KeyError ([CHR 0x27] @ ''warren_buffett'' @ [CHR 0x27]))))"
proof -
  let ?env = "(sample_env (PyStr ''{}''))
        \<lparr>get_analyst_nodes := [(''sentiment'', (''sentiment_agent'', analyst_func ''sentiment''))]\<rparr>"
  let ?err = "Exn KeyError ([CHR 0x27] @ ''warren_buffett'' @ [CHR 0x27])"
  have dates: "and_then (validate_dates ''2024-01-01'' ''2024-04-01'')
                 (\<lambda>u. resolve_dates ?env ''2024-01-01'' ''2024-04-01'') =
               Inr (''2024-01-01'', ''2024-04-01'')"
    by (simp add: validate_dates_def check_date_def resolve_dates_def and_then_def date_defs)
  have fail: "(\<exists>k\<in>set (resolve_analysts ?env (Some [''momentum''])).
                 map_of (get_analyst_nodes ?env) k = None) \<or>
              (\<exists>err. create_and_compile ?env (Some (resolve_analysts ?env (Some [''momentum'']))) =
                 Inl err)"
    by (simp add: resolve_analysts_def sample_defs)
  have again: "create_and_compile ?env (Some default_analysts) = Inl ?err"
    by (simp add: default_analysts_def graph_defs sample_defs)
  from single_fallback [of ?env "Tickers_list [''AAPL'']" "''2024-01-01''" "''2024-04-01''"
      100000 0 False "Some [''momentum'']" "''gpt-4o''" "''OpenAI''" "''2024-01-01''" "''2024-04-01''"]
  have "and_then (validate_dates ''2024-01-01'' ''2024-04-01'')
                 (\<lambda>u. resolve_dates ?env ''2024-01-01'' ''2024-04-01'') =
               Inr (''2024-01-01'', ''2024-04-01'') \<and>
        ((\<exists>k\<in>set (resolve_analysts ?env (Some [''momentum''])).
                 map_of (get_analyst_nodes ?env) k = None) \<or>
              (\<exists>err. create_and_compile ?env (Some (resolve_analysts ?env (Some [''momentum'']))) =
                 Inl err)) \<longrightarrow>
        default_analysts = [''warren_buffett'', ''peter_lynch'', ''technical_analyst''] \<and>
        build_with_fallback ?env (resolve_analysts ?env (Some [''momentum''])) =
          ([Fallback],
           map_sum id (\<lambda>app. (app, default_analysts))
             (create_and_compile ?env (Some default_analysts))) \<and>
        (\<forall>err2. create_and_compile ?env (Some default_analysts) = Inl err2 \<longrightarrow>
           run_hedge_fund_gui ?env (Tickers_list [''AAPL'']) ''2024-01-01'' ''2024-04-01''
             100000 0 False (Some [''momentum'']) ''gpt-4o'' ''OpenAI'' =
             ([Fallback], Inr (Failed (str_of err2) err2))) \<and>
        length (filter (\<lambda>ev. ev = Fallback)
          (fst (run_hedge_fund_gui ?env (Tickers_list [''AAPL'']) ''2024-01-01'' ''2024-04-01''
             100000 0 False (Some [''momentum'']) ''gpt-4o'' ''OpenAI''))) = 1"
    by (rule conjunct2)
  from this [rule_format, OF conjI [OF dates fail]]
  have "\<forall>err2. create_and_compile ?env (Some default_analysts) = Inl err2 \<longrightarrow>
           run_hedge_fund_gui ?env (Tickers_list [''AAPL'']) ''2024-01-01'' ''2024-04-01''
             100000 0 False (Some [''momentum'']) ''gpt-4o'' ''OpenAI'' =
             ([Fallback], Inr (Failed (str_of err2) err2))"
    by (elim conjE)
  from this [rule_format, OF again] show ?thesis by simp
qed



section \<open>The dates of a run\<close>




























end
